theory Spec2Isabelle
  imports Main "HOL-Library.AList"
begin

section \<open>Python values\<close>

text \<open>
  The bot (\<^verbatim>\<open>src/bot.py\<close>) relays a chat message to a classification API and
  formats the JSON answer. A Python \<^verbatim>\<open>str\<close> is a sequence of Unicode code points, and
  \<^verbatim>\<open>len\<close> and slicing count code points, so a string is modelled as the list of its
  code points. ASCII literals of the source are written with \<open>ascii\<close>; the Cyrillic
  and emoji literals are given by their code points.
\<close>

type_synonym ustr = "nat list"

definition ascii :: "string \<Rightarrow> ustr" where
  "ascii s = map of_char s"

text \<open>
  The value that \<^verbatim>\<open>response.json()\<close> returns: \<^verbatim>\<open>None\<close>, a bool, an int, a str,
  a list or a dict. A dict keeps its keys in insertion order, so it is an association
  list; lookups read the first entry of a key. JSON numbers with a fraction (Python
  floats) are outside the model.
\<close>

datatype json =
    JNull
  | JBool bool
  | JInt int
  | JStr ustr
  | JList "json list"
  | JDict "(ustr \<times> json) list"

text \<open>The interpreter errors that the formatting code can run into.\<close>

datatype py_error = AttributeError | TypeError | KeyError

text \<open>Truth value of an object, as \<^verbatim>\<open>if x:\<close> and \<^verbatim>\<open>x or y\<close> test it.\<close>

fun truthy :: "json \<Rightarrow> bool" where
  "truthy JNull = False"
| "truthy (JBool b) = b"
| "truthy (JInt i) = (i \<noteq> 0)"
| "truthy (JStr s) = (s \<noteq> [])"
| "truthy (JList xs) = (xs \<noteq> [])"
| "truthy (JDict kvs) = (kvs \<noteq> [])"

text \<open>\<^verbatim>\<open>d.get(k)\<close> and \<^verbatim>\<open>d.get(k, default)\<close> on a dict.\<close>

definition dict_get_default :: "(ustr \<times> json) list \<Rightarrow> ustr \<Rightarrow> json \<Rightarrow> json" where
  "dict_get_default d k dflt = (case map_of d k of None \<Rightarrow> dflt | Some v \<Rightarrow> v)"

definition dict_get :: "(ustr \<times> json) list \<Rightarrow> ustr \<Rightarrow> json" where
  "dict_get d k = dict_get_default d k JNull"

text \<open>
  \<^verbatim>\<open>x[key]\<close> with a string key: a dict raises KeyError on a missing key, every other
  object raises TypeError (a str or a list wants an integer index, the others are not
  subscriptable).
\<close>

fun subscript :: "json \<Rightarrow> ustr \<Rightarrow> py_error + json" where
  "subscript (JDict kvs) k = (case map_of kvs k of None \<Rightarrow> Inl KeyError | Some v \<Rightarrow> Inr v)"
| "subscript _ k = Inl TypeError"

text \<open>
  What a \<^verbatim>\<open>for\<close> loop or \<^verbatim>\<open>join\<close> iterates over: the items of a list, the
  one-character strings of a str, the keys of a dict; the other objects are not iterable.
\<close>

fun py_iter :: "json \<Rightarrow> py_error + json list" where
  "py_iter (JList xs) = Inr xs"
| "py_iter (JStr s) = Inr (map (\<lambda>c. JStr [c]) s)"
| "py_iter (JDict kvs) = Inr (map (\<lambda>kv. JStr (fst kv)) kvs)"
| "py_iter _ = Inl TypeError"

text \<open>\<^verbatim>\<open>sep.join(parts)\<close> on strings.\<close>

fun join :: "ustr \<Rightarrow> ustr list \<Rightarrow> ustr" where
  "join sep [] = []"
| "join sep [x] = x"
| "join sep (x # y # ys) = x @ sep @ join sep (y # ys)"

text \<open>Decimal rendering of an int, as \<^verbatim>\<open>str\<close> gives it.\<close>

fun digits :: "nat \<Rightarrow> ustr" where
  "digits n = (if n < 10 then [48 + n] else digits (n div 10) @ [48 + n mod 10])"

declare digits.simps [simp del]

definition str_int :: "int \<Rightarrow> ustr" where
  "str_int i = (if i < 0 then 45 # digits (nat (- i)) else digits (nat i))"

text \<open>
  \<^verbatim>\<open>repr\<close> and \<^verbatim>\<open>str\<close>, which an f-string applies to the value it interpolates.
  \<^verbatim>\<open>repr\<close> of a str (quoting and escaping, which follows the Unicode database) is
  the interpreter's and is taken as the parameter \<open>rs\<close>; everything else is written
  out.
\<close>

fun py_repr :: "(ustr \<Rightarrow> ustr) \<Rightarrow> json \<Rightarrow> ustr" where
  "py_repr rs JNull = ascii ''None''"
| "py_repr rs (JBool b) = (if b then ascii ''True'' else ascii ''False'')"
| "py_repr rs (JInt i) = str_int i"
| "py_repr rs (JStr s) = rs s"
| "py_repr rs (JList xs) = ascii ''['' @ join (ascii '', '') (map (py_repr rs) xs) @ ascii '']''"
| "py_repr rs (JDict kvs) =
     ascii ''{'' @ join (ascii '', '') (map (\<lambda>(k, v). rs k @ ascii '': '' @ py_repr rs v) kvs)
       @ ascii ''}''"

fun py_str :: "(ustr \<Rightarrow> ustr) \<Rightarrow> json \<Rightarrow> ustr" where
  "py_str rs (JStr s) = s"
| "py_str rs v = py_repr rs v"

text \<open>
  \<^verbatim>\<open>sep.join(x)\<close> on an arbitrary object: it must be iterable and every item must
  be a str.
\<close>

fun strs_of :: "json list \<Rightarrow> py_error + ustr list" where
  "strs_of [] = Inr []"
| "strs_of (JStr s # xs) = (case strs_of xs of Inl e \<Rightarrow> Inl e | Inr ss \<Rightarrow> Inr (s # ss))"
| "strs_of (_ # xs) = Inl TypeError"

definition py_join :: "ustr \<Rightarrow> json \<Rightarrow> py_error + ustr" where
  "py_join sep x =
     (case py_iter x of
        Inl e \<Rightarrow> Inl e
      | Inr items \<Rightarrow> (case strs_of items of Inl e \<Rightarrow> Inl e | Inr ss \<Rightarrow> Inr (join sep ss)))"

text \<open>
  \<^verbatim>\<open>table.get(x, x)\<close> on a dict with string keys: a list or a dict is unhashable,
  a str is looked up, anything else is not a key of the table.
\<close>

fun names_get :: "(ustr \<times> ustr) list \<Rightarrow> json \<Rightarrow> py_error + json" where
  "names_get table (JStr s) = (case map_of table s of None \<Rightarrow> Inr (JStr s) | Some l \<Rightarrow> Inr (JStr l))"
| "names_get table (JList xs) = Inl TypeError"
| "names_get table (JDict kvs) = Inl TypeError"
| "names_get table v = Inr v"

section \<open>String literals of the source\<close>

definition STATUS_REASON_PREFIX :: ustr where
  \<comment> \<open>bot.py line 78, 18 code points\<close>
  "STATUS_REASON_PREFIX =
     [65, 80, 73, 32, 1074, 1077, 1088, 1085, 1091, 1083, 32, 1089, 1090, 1072, 1090,
      1091, 1089, 32]"

definition TIMEOUT_REASON :: ustr where
  \<comment> \<open>bot.py line 82, 31 code points\<close>
  "TIMEOUT_REASON =
     [1055, 1088, 1077, 1074, 1099, 1096, 1077, 1085, 1086, 32, 1074, 1088, 1077, 1084,
      1103, 32, 1086, 1078, 1080, 1076, 1072, 1085, 1080, 1103, 32, 1086, 1090, 1074,
      1077, 1090, 1072]"

definition CLASSIFIED_HEADER :: ustr where
  \<comment> \<open>bot.py line 96, 36 code points\<close>
  "CLASSIFIED_HEADER =
     [9989, 32, 1047, 1072, 1103, 1074, 1082, 1072, 32, 1091, 1089, 1087, 1077, 1096,
      1085, 1086, 32, 1082, 1083, 1072, 1089, 1089, 1080, 1092, 1080, 1094, 1080, 1088,
      1086, 1074, 1072, 1085, 1072, 58, 10, 10]"

definition CLASSIFIED_BULLET :: ustr where
  \<comment> \<open>bot.py line 100, 2 code points\<close>
  "CLASSIFIED_BULLET =
     [128313, 32]"

definition KEYWORDS_LABEL :: ustr where
  \<comment> \<open>bot.py line 103, 19 code points\<close>
  "KEYWORDS_LABEL =
     [10, 128273, 32, 1050, 1083, 1102, 1095, 1077, 1074, 1099, 1077, 32, 1089, 1083,
      1086, 1074, 1072, 58, 32]"

definition MISSING_HEADER :: ustr where
  \<comment> \<open>bot.py line 116, 61 code points\<close>
  "MISSING_HEADER =
     [9888, 65039, 32, 1044, 1083, 1103, 32, 1086, 1073, 1088, 1072, 1073, 1086, 1090,
      1082, 1080, 32, 1079, 1072, 1103, 1074, 1082, 1080, 32, 1090, 1088, 1077, 1073,
      1091, 1077, 1090, 1089, 1103, 32, 1076, 1086, 1087, 1086, 1083, 1085, 1080, 1090,
      1077, 1083, 1100, 1085, 1072, 1103, 32, 1080, 1085, 1092, 1086, 1088, 1084, 1072,
      1094, 1080, 1103, 10, 10]"

definition RECOGNIZED_HEADER :: ustr where
  \<comment> \<open>bot.py line 119, 18 code points\<close>
  "RECOGNIZED_HEADER =
     [10003, 32, 1059, 1078, 1077, 32, 1088, 1072, 1089, 1087, 1086, 1079, 1085, 1072,
      1085, 1086, 58, 10]"

definition CLARIFY_HEADER :: ustr where
  \<comment> \<open>bot.py line 125, 25 code points\<close>
  "CLARIFY_HEADER =
     [10071, 65039, 32, 1055, 1086, 1078, 1072, 1083, 1091, 1081, 1089, 1090, 1072, 44,
      32, 1091, 1090, 1086, 1095, 1085, 1080, 1090, 1077, 58, 10]"

definition API_ERROR_REPLY :: ustr where
  \<comment> \<open>bot.py line 136, 68 code points\<close>
  "API_ERROR_REPLY =
     [1055, 1088, 1086, 1080, 1079, 1086, 1096, 1083, 1072, 32, 1086, 1096, 1080, 1073,
      1082, 1072, 32, 1087, 1088, 1080, 32, 1086, 1073, 1088, 1072, 1073, 1086, 1090,
      1082, 1077, 32, 1079, 1072, 1103, 1074, 1082, 1080, 46, 32, 1055, 1086, 1078, 1072,
      1083, 1091, 1081, 1089, 1090, 1072, 44, 32, 1087, 1086, 1087, 1088, 1086, 1073,
      1091, 1081, 1090, 1077, 32, 1087, 1086, 1079, 1078, 1077, 46]"

definition RETRY_EXHAUSTED_REPLY :: ustr where
  \<comment> \<open>bot.py line 199, 88 code points\<close>
  "RETRY_EXHAUSTED_REPLY =
     [1048, 1079, 1074, 1080, 1085, 1080, 1090, 1077, 44, 32, 1087, 1088, 1086, 1080,
      1079, 1086, 1096, 1083, 1072, 32, 1086, 1096, 1080, 1073, 1082, 1072, 32, 1087,
      1088, 1080, 32, 1086, 1073, 1088, 1072, 1073, 1086, 1090, 1082, 1077, 32, 1074,
      1072, 1096, 1077, 1075, 1086, 32, 1089, 1086, 1086, 1073, 1097, 1077, 1085, 1080,
      1103, 46, 32, 1055, 1086, 1078, 1072, 1083, 1091, 1081, 1089, 1090, 1072, 44, 32,
      1087, 1086, 1087, 1088, 1086, 1073, 1091, 1081, 1090, 1077, 32, 1087, 1086, 1079,
      1078, 1077, 46]"

definition LABEL_EQUIPMENT_TYPE :: ustr where
  \<comment> \<open>bot.py line 91, 16 code points\<close>
  "LABEL_EQUIPMENT_TYPE =
     [1058, 1080, 1087, 32, 1086, 1073, 1086, 1088, 1091, 1076, 1086, 1074, 1072, 1085,
      1080, 1103]"

definition LABEL_FAILURE_POINT :: ustr where
  \<comment> \<open>bot.py line 92, 17 code points\<close>
  "LABEL_FAILURE_POINT =
     [1058, 1080, 1087, 32, 1085, 1077, 1080, 1089, 1087, 1088, 1072, 1074, 1085, 1086,
      1089, 1090, 1080]"

definition LABEL_SERIAL_NUMBER :: ustr where
  \<comment> \<open>bot.py line 93, 14 code points\<close>
  "LABEL_SERIAL_NUMBER =
     [1057, 1077, 1088, 1080, 1081, 1085, 1099, 1081, 32, 1085, 1086, 1084, 1077, 1088]"

definition label_equipment_type :: ustr where
  \<comment> \<open>bot.py line 111, 16 code points\<close>
  "label_equipment_type =
     [1090, 1080, 1087, 32, 1086, 1073, 1086, 1088, 1091, 1076, 1086, 1074, 1072, 1085,
      1080, 1103]"

definition label_failure_point :: ustr where
  \<comment> \<open>bot.py line 112, 17 code points\<close>
  "label_failure_point =
     [1090, 1080, 1087, 32, 1085, 1077, 1080, 1089, 1087, 1088, 1072, 1074, 1085, 1086,
      1089, 1090, 1080]"

definition label_serial_number :: ustr where
  \<comment> \<open>bot.py line 113, 14 code points\<close>
  "label_serial_number =
     [1089, 1077, 1088, 1080, 1081, 1085, 1099, 1081, 32, 1085, 1086, 1084, 1077, 1088]"

section \<open>Reply formatting\<close>

text \<open>The two \<^verbatim>\<open>attr_names\<close> tables of \<^verbatim>\<open>MessageFormatter\<close>.\<close>

definition attr_names_classified :: "(ustr \<times> ustr) list" where
  "attr_names_classified =
     [(ascii ''equipment_type'', LABEL_EQUIPMENT_TYPE),
      (ascii ''failure_point'', LABEL_FAILURE_POINT),
      (ascii ''serial_number'', LABEL_SERIAL_NUMBER)]"

definition attr_names_missing :: "(ustr \<times> ustr) list" where
  "attr_names_missing =
     [(ascii ''equipment_type'', label_equipment_type),
      (ascii ''failure_point'', label_failure_point),
      (ascii ''serial_number'', label_serial_number)]"

text \<open>
  The loop over the attributes, shared in shape by both formatters
  (\<^verbatim>\<open>name = attr_names.get(attr['name'], attr['name'])\<close>, then
  \<^verbatim>\<open>reply += f"<bullet>{name}: {attr['value']}\n"\<close>). The reply built so far is the
  accumulator; the first error ends the loop.
\<close>

fun attr_lines ::
  "(ustr \<Rightarrow> ustr) \<Rightarrow> (ustr \<times> ustr) list \<Rightarrow> ustr \<Rightarrow> json list \<Rightarrow> ustr \<Rightarrow> py_error + ustr" where
  "attr_lines rs table bullet [] reply = Inr reply"
| "attr_lines rs table bullet (attr # rest) reply =
     (case subscript attr (ascii ''name'') of
        Inl e \<Rightarrow> Inl e
      | Inr n \<Rightarrow>
          (case names_get table n of
             Inl e \<Rightarrow> Inl e
           | Inr name \<Rightarrow>
               (case subscript attr (ascii ''value'') of
                  Inl e \<Rightarrow> Inl e
                | Inr v \<Rightarrow>
                    attr_lines rs table bullet rest
                      (reply @ bullet @ py_str rs name @ ascii '': '' @ py_str rs v @ [10]))))"

definition format_successful_classification ::
  "(ustr \<Rightarrow> ustr) \<Rightarrow> json \<Rightarrow> json \<Rightarrow> py_error + ustr" where
  "format_successful_classification rs attributes keywords =
     (case py_iter attributes of
        Inl e \<Rightarrow> Inl e
      | Inr attrs \<Rightarrow>
          (case attr_lines rs attr_names_classified CLASSIFIED_BULLET attrs CLASSIFIED_HEADER of
             Inl e \<Rightarrow> Inl e
           | Inr reply \<Rightarrow>
               if truthy keywords then
                 (case py_join (ascii '', '') keywords of
                    Inl e \<Rightarrow> Inl e
                  | Inr joined \<Rightarrow> Inr (reply @ KEYWORDS_LABEL @ joined))
               else Inr reply))"

text \<open>The loop over the missing attributes (\<^verbatim>\<open>reply += f"- {readable_name}\n"\<close>).\<close>

fun missing_lines :: "(ustr \<Rightarrow> ustr) \<Rightarrow> json list \<Rightarrow> ustr \<Rightarrow> py_error + ustr" where
  "missing_lines rs [] reply = Inr reply"
| "missing_lines rs (attr # rest) reply =
     (case names_get attr_names_missing attr of
        Inl e \<Rightarrow> Inl e
      | Inr readable_name \<Rightarrow>
          missing_lines rs rest (reply @ ascii ''- '' @ py_str rs readable_name @ [10]))"

definition recognized_block :: "(ustr \<Rightarrow> ustr) \<Rightarrow> json \<Rightarrow> ustr \<Rightarrow> py_error + ustr" where
  "recognized_block rs recognized_attrs reply =
     (if truthy recognized_attrs then
        (case py_iter recognized_attrs of
           Inl e \<Rightarrow> Inl e
         | Inr attrs \<Rightarrow>
             (case attr_lines rs attr_names_missing (ascii ''- '') attrs (reply @ RECOGNIZED_HEADER) of
                Inl e \<Rightarrow> Inl e
              | Inr reply' \<Rightarrow> Inr (reply' @ [10])))
      else Inr reply)"

definition format_missing_info ::
  "(ustr \<Rightarrow> ustr) \<Rightarrow> json \<Rightarrow> json \<Rightarrow> py_error + ustr" where
  "format_missing_info rs missing_attrs recognized_attrs =
     (case recognized_block rs recognized_attrs MISSING_HEADER of
        Inl e \<Rightarrow> Inl e
      | Inr reply \<Rightarrow>
          (case py_iter missing_attrs of
             Inl e \<Rightarrow> Inl e
           | Inr missing \<Rightarrow> missing_lines rs missing (reply @ CLARIFY_HEADER)))"

section \<open>Processing the API response\<close>

text \<open>
  \<^verbatim>\<open>APIResponse.__init__\<close> stores \<^verbatim>\<open>data or {}\<close>: a falsy payload (also the default
  \<^verbatim>\<open>None\<close>) becomes the empty dict, any other value is kept as it is.
\<close>

record APIResponse =
  success :: bool
  data :: json
  error :: "ustr option"

definition APIResponse_init :: "bool \<Rightarrow> json \<Rightarrow> ustr option \<Rightarrow> APIResponse" where
  "APIResponse_init s d e =
     \<lparr>success = s, data = (if truthy d then d else JDict []), error = e\<rparr>"

text \<open>
  Lines 145 to 150 of \<^verbatim>\<open>process_api_response\<close>: when \<^verbatim>\<open>data.get('attributes')\<close> is
  a dict, the key is reassigned to the list comprehension over its items that keeps
  the items whose value is not \<^verbatim>\<open>None\<close>. Assigning to a key that exists keeps its
  position in the dict.
\<close>

definition attribute_record :: "ustr \<times> json \<Rightarrow> json" where
  "attribute_record kv = JDict [(ascii ''name'', JStr (fst kv)), (ascii ''value'', snd kv)]"

definition normalize_attributes :: "(ustr \<times> json) list \<Rightarrow> (ustr \<times> json) list" where
  "normalize_attributes d =
     (case dict_get d (ascii ''attributes'') of
        JDict items \<Rightarrow>
          AList.update (ascii ''attributes'')
            (JList (map attribute_record (filter (\<lambda>kv. snd kv \<noteq> JNull) items))) d
      | _ \<Rightarrow> d)"

text \<open>
  \<^verbatim>\<open>process_api_response\<close> returns the reply or raises; it also mutates
  \<^verbatim>\<open>response.data\<close> in place, so the model returns the payload object as it is
  after the call beside the outcome. A payload that is not a dict has no \<^verbatim>\<open>get\<close>.
  The reply of the pass-through branch is \<^verbatim>\<open>data['answer']\<close> itself, whatever its
  type; the formatters return a str. The log line of the failure branch is not modelled.
\<close>

definition format_reply :: "(ustr \<Rightarrow> ustr) \<Rightarrow> (ustr \<times> json) list \<Rightarrow> py_error + json" where
  "format_reply rs d =
     (if truthy (dict_get d (ascii ''valid'')) then
        map_sum id JStr
          (format_successful_classification rs
             (dict_get_default d (ascii ''attributes'') (JList []))
             (dict_get_default d (ascii ''keywords'') (JList [])))
      else
        map_sum id JStr
          (format_missing_info rs
             (dict_get_default d (ascii ''missingAttributes'') (JList []))
             (dict_get_default d (ascii ''attributes'') (JList []))))"

definition process_api_response ::
  "(ustr \<Rightarrow> ustr) \<Rightarrow> APIResponse \<Rightarrow> (py_error + json) \<times> json" where
  "process_api_response rs response =
     (if \<not> success response then (Inr (JStr API_ERROR_REPLY), data response)
      else
        (case data response of
           JDict d \<Rightarrow>
             if truthy (dict_get d (ascii ''answer'')) then
               (Inr (dict_get d (ascii ''answer'')), JDict d)
             else
               (format_reply rs (normalize_attributes d), JDict (normalize_attributes d))
         | other \<Rightarrow> (Inl AttributeError, other)))"

section \<open>The classification client\<close>

text \<open>
  \<^verbatim>\<open>Config\<close> reads every numeric setting with \<^verbatim>\<open>int(os.getenv(...))\<close>, so each is
  an arbitrary integer; only \<^verbatim>\<open>BOT_TOKEN\<close> is checked.
\<close>

record Config =
  BOT_TOKEN :: ustr
  API_URL :: ustr
  MAX_RETRIES :: int
  TIMEOUT :: int
  MAX_TEXT_LENGTH :: int
  RETRY_DELAY :: int

text \<open>
  The slice \<^verbatim>\<open>xs[:n]\<close>: the first \<open>n\<close> items, and for a negative \<open>n\<close> all but
  the last \<open>- n\<close>.
\<close>

definition slice_to :: "'a list \<Rightarrow> int \<Rightarrow> 'a list" where
  "slice_to xs n = (if 0 \<le> n then take (nat n) xs else take (nat (int (length xs) + n)) xs)"

text \<open>
  Lines 51 to 60 of \<^verbatim>\<open>classify_message\<close>: the text is cut when it is longer than
  \<^verbatim>\<open>MAX_TEXT_LENGTH\<close> (the warning that is logged is not modelled), and the request
  body is built from it.
\<close>

definition truncated :: "Config \<Rightarrow> ustr \<Rightarrow> ustr" where
  "truncated cfg t =
     (if int (length t) > MAX_TEXT_LENGTH cfg then slice_to t (MAX_TEXT_LENGTH cfg) else t)"

definition request_data :: "Config \<Rightarrow> ustr \<Rightarrow> (ustr \<times> json) list" where
  "request_data cfg t =
     [(ascii ''text'', JStr (truncated cfg t)),
      (ascii ''name'', JNull),
      (ascii ''topic'', JNull),
      (ascii ''generate_answer'', JBool True)]"

record post_request =
  url :: ustr
  json_body :: "(ustr \<times> json) list"
  headers :: "(ustr \<times> ustr) list"
  timeout_total :: int

definition post_request_of :: "Config \<Rightarrow> ustr \<Rightarrow> post_request" where
  "post_request_of cfg t =
     \<lparr>url = API_URL cfg,
      json_body = request_data cfg t,
      headers = [(ascii ''Content-Type'', ascii ''application/json'')],
      timeout_total = TIMEOUT cfg\<rparr>"

text \<open>
  What the HTTP exchange can do. Either an exception leaves the \<^verbatim>\<open>async with\<close> block
  before a status is seen (raised by \<^verbatim>\<open>session.post\<close> or by \<^verbatim>\<open>response.text()\<close>):
  \<^verbatim>\<open>asyncio.TimeoutError\<close>, or any other \<^verbatim>\<open>Exception\<close> \<open>e\<close>, kept as \<^verbatim>\<open>str(e)\<close>. Or
  there is a response with its status, its body text and what \<^verbatim>\<open>response.json()\<close>
  does, which the code asks for at status 200 only.
\<close>

datatype http_fault = TimeoutFault | OtherFault ustr

datatype http_outcome =
    Aborted http_fault
  | Response int ustr "http_fault + json"

text \<open>
  An exception as \<^verbatim>\<open>handle_message\<close> sees it: an interpreter error raised while the
  response is processed, or an exception raised by a collaborator, kept as \<^verbatim>\<open>str(e)\<close>.
\<close>

datatype exn = ProcessingError py_error | Raised ustr

text \<open>The \<^verbatim>\<open>try\<close> block of \<^verbatim>\<open>classify_message\<close> (lines 63 to 79).\<close>

definition classify_try ::
  "Config \<Rightarrow> (post_request \<Rightarrow> http_outcome) \<Rightarrow> ustr \<Rightarrow> http_fault + APIResponse" where
  "classify_try cfg session_post t =
     (case session_post (post_request_of cfg t) of
        Aborted f \<Rightarrow> Inl f
      | Response status response_text parsed \<Rightarrow>
          if status = 200 then
            (case parsed of
               Inl f \<Rightarrow> Inl f
             | Inr result \<Rightarrow> Inr (APIResponse_init True result None))
          else
            Inr (APIResponse_init False JNull
                   (Some (STATUS_REASON_PREFIX @ str_int status @ ascii '': '' @ response_text))))"

text \<open>
  \<^verbatim>\<open>classify_message\<close> with its two handlers (lines 81 to 84). The result type has
  room for an exception that leaves the method.
\<close>

definition classify_message ::
  "Config \<Rightarrow> (post_request \<Rightarrow> http_outcome) \<Rightarrow> ustr \<Rightarrow> exn + APIResponse" where
  "classify_message cfg session_post t =
     (case classify_try cfg session_post t of
        Inr response \<Rightarrow> Inr response
      | Inl TimeoutFault \<Rightarrow> Inr (APIResponse_init False JNull (Some TIMEOUT_REASON))
      | Inl (OtherFault e) \<Rightarrow> Inr (APIResponse_init False JNull (Some e)))"

section \<open>The retry loop of the message handler\<close>

text \<open>
  \<^verbatim>\<open>handle_message\<close> talks to two collaborators: the API client and the chat
  platform. Their behaviour is an input of the model, so that a stub can stand for
  either:
  \<^item> \<open>client attempt t\<close> is what \<^verbatim>\<open>api_client.classify_message(t)\<close> does in the loop
    iteration \<open>attempt\<close>: it raises or returns a response;
  \<^item> \<open>reply_to attempt reply\<close> is what \<^verbatim>\<open>bot.reply_to\<close> does in the \<^verbatim>\<open>try\<close> block of
    that iteration: \<open>None\<close> when the reply is delivered, otherwise the exception raised
    (nothing is delivered then);
  \<^item> \<open>apology_reply_to\<close> is the same for the one \<^verbatim>\<open>bot.reply_to\<close> of the handler.

  What the handler does is observed as the list of its effects, in order. Log lines
  are not modelled.
\<close>

record collaborators =
  client :: "nat \<Rightarrow> ustr \<Rightarrow> exn + APIResponse"
  reply_to :: "nat \<Rightarrow> json \<Rightarrow> exn option"
  apology_reply_to :: "exn option"

datatype event = ClientCall ustr | Slept int | Replied json

text \<open>The \<^verbatim>\<open>try\<close> block (lines 190 to 192): the reply it delivered, or the exception.\<close>

definition attempt_body ::
  "(ustr \<Rightarrow> ustr) \<Rightarrow> collaborators \<Rightarrow> nat \<Rightarrow> ustr \<Rightarrow> exn + json" where
  "attempt_body rs env attempt t =
     (case client env attempt t of
        Inl e \<Rightarrow> Inl e
      | Inr response \<Rightarrow>
          (case fst (process_api_response rs response) of
             Inl e \<Rightarrow> Inl (ProcessingError e)
           | Inr reply \<Rightarrow>
               (case reply_to env attempt reply of
                  Some e \<Rightarrow> Inl e
                | None \<Rightarrow> Inr reply)))"

text \<open>
  \<^verbatim>\<open>asyncio.sleep(delay)\<close> with an int: a delay that is not positive returns at once;
  any other delay is added to the float \<^verbatim>\<open>loop.time()\<close>, and an int that does not
  round to a float raises \<^verbatim>\<open>OverflowError\<close>. The ints that round to a float are those
  below \<open>2 ^ 1024 - 2 ^ 970\<close>. The result is the exception raised, if any.
\<close>

definition asyncio_sleep :: "int \<Rightarrow> exn option" where
  "asyncio_sleep delay =
     (if delay \<le> 0 then None
      else if 2 ^ 1024 - 2 ^ 970 \<le> delay
      then Some (Raised (ascii ''int too large to convert to float''))
      else None)"

text \<open>
  The \<^verbatim>\<open>for\<close> loop over the remaining values of \<^verbatim>\<open>range(MAX_RETRIES)\<close>. The result
  is the effects and the exception that left the handler, if any. The \<^verbatim>\<open>except\<close>
  clause (lines 194 to 203) is outside any \<^verbatim>\<open>try\<close>, so an exception of its
  \<^verbatim>\<open>bot.reply_to\<close> or of its \<^verbatim>\<open>asyncio.sleep\<close> ends the loop and leaves the handler.
\<close>

fun retry_loop ::
  "(ustr \<Rightarrow> ustr) \<Rightarrow> Config \<Rightarrow> collaborators \<Rightarrow> ustr \<Rightarrow> nat list \<Rightarrow> event list \<times> exn option" where
  "retry_loop rs cfg env t [] = ([], None)"
| "retry_loop rs cfg env t (attempt # rest) =
     (case attempt_body rs env attempt t of
        Inr reply \<Rightarrow> ([ClientCall t, Replied reply], None)
      | Inl e \<Rightarrow>
          if int attempt = MAX_RETRIES cfg - 1 then
            (case apology_reply_to env of
               Some e' \<Rightarrow> ([ClientCall t], Some e')
             | None \<Rightarrow>
                 (case retry_loop rs cfg env t rest of
                    (evs, r) \<Rightarrow> (ClientCall t # Replied (JStr RETRY_EXHAUSTED_REPLY) # evs, r)))
          else
            (case asyncio_sleep (RETRY_DELAY cfg) of
               Some e' \<Rightarrow> ([ClientCall t], Some e')
             | None \<Rightarrow>
                 (case retry_loop rs cfg env t rest of
                    (evs, r) \<Rightarrow> (ClientCall t # Slept (RETRY_DELAY cfg) # evs, r))))"

definition handle_message ::
  "(ustr \<Rightarrow> ustr) \<Rightarrow> Config \<Rightarrow> collaborators \<Rightarrow> ustr \<Rightarrow> event list \<times> exn option" where
  "handle_message rs cfg env t = retry_loop rs cfg env t [0..<nat (MAX_RETRIES cfg)]"

text \<open>The client that \<^verbatim>\<open>handle_message\<close> builds: \<^verbatim>\<open>APIClient\<close> over the network.\<close>

definition api_client ::
  "Config \<Rightarrow> (nat \<Rightarrow> post_request \<Rightarrow> http_outcome) \<Rightarrow> nat \<Rightarrow> ustr \<Rightarrow> exn + APIResponse" where
  "api_client cfg network attempt t = classify_message cfg (network attempt) t"

text \<open>The replies among the effects.\<close>

fun replies_of :: "event list \<Rightarrow> json list" where
  "replies_of [] = []"
| "replies_of (Replied r # evs) = r # replies_of evs"
| "replies_of (_ # evs) = replies_of evs"

section \<open>Payloads of the documented shape\<close>

text \<open>
  The data model gives the recognised keys of a success payload their types: \<open>answer\<close>
  a string, \<open>attributes\<close> a mapping or a list of attributes (a record with a string
  \<open>name\<close> and a \<open>value\<close>), \<open>missingAttributes\<close> and \<open>keywords\<close> lists of strings.
  \<open>payload_shape\<close> says that every such key that is present holds a value of its
  type; any key may be absent, other keys are free, and \<open>valid\<close> is free as well, since
  the code only tests its truth value.
\<close>

fun is_str :: "json \<Rightarrow> bool" where
  "is_str (JStr s) = True"
| "is_str _ = False"

fun is_attribute :: "json \<Rightarrow> bool" where
  "is_attribute (JDict kvs) =
     (case map_of kvs (ascii ''name'') of
        Some (JStr n) \<Rightarrow> map_of kvs (ascii ''value'') \<noteq> None
      | _ \<Rightarrow> False)"
| "is_attribute _ = False"

fun is_attributes :: "json \<Rightarrow> bool" where
  "is_attributes (JDict items) = True"
| "is_attributes (JList xs) = list_all is_attribute xs"
| "is_attributes _ = False"

fun is_str_list :: "json \<Rightarrow> bool" where
  "is_str_list (JList xs) = list_all is_str xs"
| "is_str_list _ = False"

definition field_ok :: "(json \<Rightarrow> bool) \<Rightarrow> (ustr \<times> json) list \<Rightarrow> ustr \<Rightarrow> bool" where
  "field_ok P d k = (case map_of d k of None \<Rightarrow> True | Some v \<Rightarrow> P v)"

definition payload_shape :: "(ustr \<times> json) list \<Rightarrow> bool" where
  "payload_shape d =
     (field_ok is_str d (ascii ''answer'') \<and>
      field_ok is_attributes d (ascii ''attributes'') \<and>
      field_ok is_str_list d (ascii ''missingAttributes'') \<and>
      field_ok is_str_list d (ascii ''keywords''))"

text \<open>
  The payload with the documented defaults written in for the keys that are absent
  (\<open>valid\<close> false, the three lists empty); \<open>setdefault\<close> is the dict method of that
  name. This is the reading of the specification that the code is compared with.
\<close>

definition setdefault :: "ustr \<Rightarrow> json \<Rightarrow> (ustr \<times> json) list \<Rightarrow> (ustr \<times> json) list" where
  "setdefault k v d = (case map_of d k of None \<Rightarrow> d @ [(k, v)] | Some w \<Rightarrow> d)"

definition with_defaults :: "(ustr \<times> json) list \<Rightarrow> (ustr \<times> json) list" where
  "with_defaults d =
     setdefault (ascii ''keywords'') (JList [])
       (setdefault (ascii ''missingAttributes'') (JList [])
          (setdefault (ascii ''attributes'') (JList [])
             (setdefault (ascii ''valid'') (JBool False) d)))"

section \<open>Configurations and stubs used in the examples\<close>

text \<open>The defaults of \<^verbatim>\<open>Config\<close>, with some token and URL.\<close>

definition default_config :: Config where
  "default_config =
     \<lparr>BOT_TOKEN = ascii ''token'', API_URL = ascii ''http://localhost:8080/api/analyze'',
      MAX_RETRIES = 3, TIMEOUT = 120, MAX_TEXT_LENGTH = 4096, RETRY_DELAY = 5\<rparr>"

text \<open>A client stub that raises a transport fault on every call.\<close>

definition stub_always_raising :: collaborators where
  "stub_always_raising =
     \<lparr>client = (\<lambda>attempt t. Inl (Raised (ascii ''connection reset''))),
      reply_to = (\<lambda>attempt reply. None),
      apology_reply_to = None\<rparr>"

text \<open>A client stub that returns the clean failure \<^verbatim>\<open>"status 500"\<close>.\<close>

definition stub_clean_failure :: collaborators where
  "stub_clean_failure =
     \<lparr>client = (\<lambda>attempt t. Inr (APIResponse_init False JNull (Some (ascii ''status 500'')))),
      reply_to = (\<lambda>attempt reply. None),
      apology_reply_to = None\<rparr>"

text \<open>
  A client stub that raises on the first two calls and then returns a payload with a
  ready answer.
\<close>

definition stub_third_call_succeeds :: collaborators where
  "stub_third_call_succeeds =
     \<lparr>client = (\<lambda>attempt t.
        if attempt < 2 then Inl (Raised (ascii ''connection reset''))
        else Inr (APIResponse_init True (JDict [(ascii ''answer'', JStr (ascii ''ok''))]) None)),
      reply_to = (\<lambda>attempt reply. None),
      apology_reply_to = None\<rparr>"

text \<open>A chat platform that rejects every reply, behind a client that answers.\<close>

definition stub_platform_down :: collaborators where
  "stub_platform_down =
     \<lparr>client = (\<lambda>attempt t.
        Inr (APIResponse_init True (JDict [(ascii ''answer'', JStr (ascii ''ok''))]) None)),
      reply_to = (\<lambda>attempt reply. Some (Raised (ascii ''network down''))),
      apology_reply_to = Some (Raised (ascii ''network down''))\<rparr>"

text \<open>Three HTTP sessions: a status 500, a timeout, a reset connection.\<close>

definition session_status_500 :: "post_request \<Rightarrow> http_outcome" where
  "session_status_500 req = Response 500 (ascii ''busy'') (Inl (OtherFault (ascii ''not json'')))"

definition session_timeout :: "post_request \<Rightarrow> http_outcome" where
  "session_timeout req = Aborted TimeoutFault"

definition session_reset :: "post_request \<Rightarrow> http_outcome" where
  "session_reset req = Aborted (OtherFault (ascii ''connection reset''))"

text \<open>The identity stands for \<^verbatim>\<open>repr\<close> on a str where the examples never call it.\<close>

definition no_repr :: "ustr \<Rightarrow> ustr" where
  "no_repr s = s"

section \<open>Facts about dicts and normalization\<close>

lemma map_of_update_other: "k \<noteq> k' \<Longrightarrow> map_of (AList.update k' v d) k = map_of d k"
  by (simp add: update_conv')

lemma map_of_update_same: "map_of (AList.update k v d) k = Some v"
  by (simp add: update_conv')

lemma keys_update_present: "map_of d k = Some w \<Longrightarrow> map fst (AList.update k v d) = map fst d"
  by (induction d) (auto split: if_splits)

lemma normalize_attributes_cases:
  "normalize_attributes d = d \<or>
   (\<exists>items. map_of d (ascii ''attributes'') = Some (JDict items) \<and>
      normalize_attributes d =
        AList.update (ascii ''attributes'')
          (JList (map attribute_record (filter (\<lambda>kv. snd kv \<noteq> JNull) items))) d)"
  by (auto simp: normalize_attributes_def dict_get_def dict_get_default_def
           split: json.splits option.splits)

lemma map_of_normalize_other:
  "k \<noteq> ascii ''attributes'' \<Longrightarrow> map_of (normalize_attributes d) k = map_of d k"
  using normalize_attributes_cases [of d] by (auto simp: map_of_update_other)

lemma map_of_normalize_attributes:
  "map_of (normalize_attributes d) (ascii ''attributes'') =
     (case map_of d (ascii ''attributes'') of
        Some (JDict items) \<Rightarrow>
          Some (JList (map attribute_record (filter (\<lambda>kv. snd kv \<noteq> JNull) items)))
      | other \<Rightarrow> other)"
  by (auto simp: normalize_attributes_def dict_get_def dict_get_default_def map_of_update_same
           split: option.splits json.splits)

lemma keys_normalize_attributes: "map fst (normalize_attributes d) = map fst d"
  using normalize_attributes_cases [of d] by (auto simp: keys_update_present)

lemma key_distinct:
  "ascii ''valid'' \<noteq> ascii ''attributes''" "ascii ''keywords'' \<noteq> ascii ''attributes''"
  "ascii ''missingAttributes'' \<noteq> ascii ''attributes''" "ascii ''answer'' \<noteq> ascii ''attributes''"
  "ascii ''answer'' \<noteq> ascii ''valid''" "ascii ''answer'' \<noteq> ascii ''keywords''"
  "ascii ''answer'' \<noteq> ascii ''missingAttributes''"
  "ascii ''valid'' \<noteq> ascii ''keywords''" "ascii ''valid'' \<noteq> ascii ''missingAttributes''"
  "ascii ''keywords'' \<noteq> ascii ''missingAttributes''"
  by (simp_all add: ascii_def)

text \<open>Without a ready answer the payload of a success response is normalized.\<close>

lemma process_api_response_normalizes:
  assumes "success response" and "data response = JDict d"
    and "\<not> truthy (dict_get d (ascii ''answer''))"
  shows "snd (process_api_response rs response) = JDict (normalize_attributes d)"
  using assms by (simp add: process_api_response_def)

section \<open>The pass-through answer\<close>

text \<open>
  Claim C4. For every success payload whose \<open>answer\<close> is present and a non-empty string,
  the reply is that string itself, whatever else the payload holds; the payload is left
  as it was, so no attribute is normalized, and no formatter runs (no field other than
  \<open>answer\<close> can change the reply or make the call fail).
\<close>

theorem answer_pass_through:
  assumes "success response" and "data response = JDict d"
    and "map_of d (ascii ''answer'') = Some (JStr a)" and "a \<noteq> []"
  shows "process_api_response rs response = (Inr (JStr a), JDict d)"
  using assms by (simp add: process_api_response_def dict_get_def dict_get_default_def)

text \<open>
  An instance: the answer wins over a mapping of attributes, which stays a mapping, and
  over a \<open>keywords\<close> field that no formatter could join.
\<close>

theorem answer_pass_through_witness:
  "success \<lparr>success = True,
            data = JDict [(ascii ''attributes'', JDict [(ascii ''serial_number'', JNull)]),
                          (ascii ''keywords'', JInt 5),
                          (ascii ''answer'', JStr (ascii ''ok''))],
            error = None\<rparr> \<and>
   ascii ''ok'' \<noteq> [] \<and>
   process_api_response no_repr
     \<lparr>success = True,
      data = JDict [(ascii ''attributes'', JDict [(ascii ''serial_number'', JNull)]),
                    (ascii ''keywords'', JInt 5),
                    (ascii ''answer'', JStr (ascii ''ok''))],
      error = None\<rparr> =
     (Inr (JStr (ascii ''ok'')),
      JDict [(ascii ''attributes'', JDict [(ascii ''serial_number'', JNull)]),
             (ascii ''keywords'', JInt 5),
             (ascii ''answer'', JStr (ascii ''ok''))])"
  using answer_pass_through
    [of "\<lparr>success = True,
          data = JDict [(ascii ''attributes'', JDict [(ascii ''serial_number'', JNull)]),
                        (ascii ''keywords'', JInt 5),
                        (ascii ''answer'', JStr (ascii ''ok''))],
          error = None\<rparr>"
        "[(ascii ''attributes'', JDict [(ascii ''serial_number'', JNull)]),
          (ascii ''keywords'', JInt 5),
          (ascii ''answer'', JStr (ascii ''ok''))]"
        "ascii ''ok''" no_repr]
  by (simp add: ascii_def)

section \<open>Normalization of the attributes\<close>

text \<open>
  Claim C5. When the \<open>attributes\<close> field of the payload is a mapping, normalization
  replaces it by the list of \<open>{name, value}\<close> records of exactly the entries whose value
  is not null, in the order of the mapping. The mapping
  \<open>{"serial_number": "ABC123", "equipment_type": null}\<close> becomes
  \<open>[{name: "serial_number", value: "ABC123"}]\<close>.
\<close>

theorem normalize_attributes_mapping:
  assumes "map_of d (ascii ''attributes'') = Some (JDict items)"
  shows "map_of (normalize_attributes d) (ascii ''attributes'') =
           Some (JList (map (\<lambda>kv. JDict [(ascii ''name'', JStr (fst kv)), (ascii ''value'', snd kv)])
                          (filter (\<lambda>kv. snd kv \<noteq> JNull) items)))"
  using assms
  by (simp add: map_of_normalize_attributes attribute_record_def [abs_def])

theorem normalize_attributes_mapping_witness:
  "map_of [(ascii ''attributes'',
            JDict [(ascii ''serial_number'', JStr (ascii ''ABC123'')),
                   (ascii ''equipment_type'', JNull)])]
     (ascii ''attributes'') =
     Some (JDict [(ascii ''serial_number'', JStr (ascii ''ABC123'')),
                  (ascii ''equipment_type'', JNull)]) \<and>
   map_of (normalize_attributes
       [(ascii ''attributes'',
         JDict [(ascii ''serial_number'', JStr (ascii ''ABC123'')),
                (ascii ''equipment_type'', JNull)])])
     (ascii ''attributes'') =
     Some (JList [JDict [(ascii ''name'', JStr (ascii ''serial_number'')),
                         (ascii ''value'', JStr (ascii ''ABC123''))]])"
  using normalize_attributes_mapping
    [of "[(ascii ''attributes'',
           JDict [(ascii ''serial_number'', JStr (ascii ''ABC123'')),
                  (ascii ''equipment_type'', JNull)])]"
        "[(ascii ''serial_number'', JStr (ascii ''ABC123'')), (ascii ''equipment_type'', JNull)]"]
  by simp

text \<open>
  Claim C9, as stated, fails: a list of attributes is passed through as it is, so an
  attribute that arrives in a list with a null value keeps it. The payload
  \<open>{"attributes": [{"name": "serial_number", "value": null}]}\<close> is the same after
  normalization and after the whole of \<^verbatim>\<open>process_api_response\<close>.
\<close>

theorem list_attributes_keep_null_counterexample:
  "dict_get
     (normalize_attributes
        [(ascii ''attributes'',
          JList [JDict [(ascii ''name'', JStr (ascii ''serial_number'')), (ascii ''value'', JNull)]])])
     (ascii ''attributes'') =
     JList [JDict [(ascii ''name'', JStr (ascii ''serial_number'')), (ascii ''value'', JNull)]] \<and>
   snd (process_api_response no_repr
     \<lparr>success = True,
      data = JDict [(ascii ''attributes'',
          JList [JDict [(ascii ''name'', JStr (ascii ''serial_number'')), (ascii ''value'', JNull)]])],
      error = None\<rparr>) =
     JDict [(ascii ''attributes'',
          JList [JDict [(ascii ''name'', JStr (ascii ''serial_number'')), (ascii ''value'', JNull)]])]"
  by (simp add: process_api_response_def normalize_attributes_def dict_get_def
        dict_get_default_def ascii_def)

text \<open>
  Claim C9, amended. After normalization of a payload whose \<open>attributes\<close> field arrived
  as a mapping, the field is a list of \<open>{name, value}\<close> records and every one of them has
  a value that is not null; a payload whose \<open>attributes\<close> field arrived as a list is
  left unchanged by normalization.
\<close>

theorem normalized_mapping_values_not_null:
  "(map_of d (ascii ''attributes'') = Some (JDict items) \<longrightarrow>
      (\<exists>attrs. map_of (normalize_attributes d) (ascii ''attributes'') = Some (JList attrs) \<and>
         (\<forall>a \<in> set attrs.
            \<exists>n v. a = JDict [(ascii ''name'', JStr n), (ascii ''value'', v)] \<and> v \<noteq> JNull))) \<and>
   (map_of d (ascii ''attributes'') = Some (JList xs) \<longrightarrow> normalize_attributes d = d)"
  by (auto simp: normalize_attributes_def dict_get_def dict_get_default_def map_of_update_same
        attribute_record_def)

theorem normalized_mapping_values_not_null_witness:
  "map_of [(ascii ''attributes'',
            JDict [(ascii ''serial_number'', JStr (ascii ''ABC123'')),
                   (ascii ''equipment_type'', JNull)])]
     (ascii ''attributes'') =
     Some (JDict [(ascii ''serial_number'', JStr (ascii ''ABC123'')),
                  (ascii ''equipment_type'', JNull)]) \<and>
   map_of (normalize_attributes
       [(ascii ''attributes'',
         JDict [(ascii ''serial_number'', JStr (ascii ''ABC123'')),
                (ascii ''equipment_type'', JNull)])])
     (ascii ''attributes'') =
     Some (JList [JDict [(ascii ''name'', JStr (ascii ''serial_number'')),
                         (ascii ''value'', JStr (ascii ''ABC123''))]]) \<and>
   JStr (ascii ''ABC123'') \<noteq> JNull \<and>
   map_of [(ascii ''attributes'', JList [JInt 7])] (ascii ''attributes'') = Some (JList [JInt 7]) \<and>
   normalize_attributes [(ascii ''attributes'', JList [JInt 7])] =
     [(ascii ''attributes'', JList [JInt 7])]"
  using normalized_mapping_values_not_null
    [of "[(ascii ''attributes'',
           JDict [(ascii ''serial_number'', JStr (ascii ''ABC123'')),
                  (ascii ''equipment_type'', JNull)])]"
        "[(ascii ''serial_number'', JStr (ascii ''ABC123'')), (ascii ''equipment_type'', JNull)]"
        "[]"]
    normalized_mapping_values_not_null
    [of "[(ascii ''attributes'', JList [JInt 7])]" "[]" "[JInt 7]"]
  by (simp add: normalize_attributes_def dict_get_def dict_get_default_def attribute_record_def)

text \<open>
  Claim C10. \<^verbatim>\<open>process_api_response\<close> changes the payload dict in place at the key
  \<open>attributes\<close> only: the dict after the call is the dict before it or its
  normalization, every other key holds the value it held (also a key the code does not
  know), and the keys and their order are the same.
\<close>

theorem process_api_response_frame:
  assumes "data response = JDict d" and "k \<noteq> ascii ''attributes''"
  shows "\<exists>d'. snd (process_api_response rs response) = JDict d' \<and>
           (d' = d \<or> d' = normalize_attributes d) \<and>
           map_of d' k = map_of d k \<and> map fst d' = map fst d"
  using assms
  by (simp add: process_api_response_def map_of_normalize_other keys_normalize_attributes)

theorem process_api_response_frame_witness:
  "data \<lparr>success = True,
         data = JDict [(ascii ''attributes'', JDict [(ascii ''serial_number'', JNull)]),
                       (ascii ''ticket'', JInt 7)],
         error = None\<rparr> =
     JDict [(ascii ''attributes'', JDict [(ascii ''serial_number'', JNull)]),
            (ascii ''ticket'', JInt 7)] \<and>
   ascii ''ticket'' \<noteq> ascii ''attributes'' \<and>
   snd (process_api_response no_repr
     \<lparr>success = True,
      data = JDict [(ascii ''attributes'', JDict [(ascii ''serial_number'', JNull)]),
                    (ascii ''ticket'', JInt 7)],
      error = None\<rparr>) =
     JDict [(ascii ''attributes'', JList []), (ascii ''ticket'', JInt 7)]"
  using process_api_response_frame
    [of "\<lparr>success = True,
          data = JDict [(ascii ''attributes'', JDict [(ascii ''serial_number'', JNull)]),
                        (ascii ''ticket'', JInt 7)],
          error = None\<rparr>"
        "[(ascii ''attributes'', JDict [(ascii ''serial_number'', JNull)]),
          (ascii ''ticket'', JInt 7)]"
        "ascii ''ticket''" no_repr]
  by (simp add: process_api_response_def normalize_attributes_def dict_get_def
        dict_get_default_def ascii_def)

section \<open>The classification client returns, and what it sends\<close>

lemma classify_message_returns: "\<exists>r. classify_message cfg session_post t = Inr r"
  by (auto simp: classify_message_def split: sum.splits http_fault.splits)

text \<open>So the client that the handler builds never raises into the retry loop.\<close>

lemma api_client_returns: "\<exists>r. api_client cfg network attempt t = Inr r"
  by (simp add: api_client_def classify_message_returns)

text \<open>
  Claim C6. \<^verbatim>\<open>classify_message\<close> returns a response for every text and every outcome of
  the HTTP exchange, so no exception leaves it. At a timeout, at any other exception of
  the exchange (also one raised by parsing the body of a 200 response) and at a status
  other than 200 the response is a failure that carries a reason: the fixed timeout
  message, the description \<^verbatim>\<open>str(e)\<close> of the exception, and for a status other than 200
  the fixed prefix followed by the status code, \<open>": "\<close> and the raw body text.
\<close>

theorem classify_message_failure_results:
  "\<exists>r. classify_message cfg session_post t = Inr r \<and>
     (session_post (post_request_of cfg t) = Aborted TimeoutFault \<longrightarrow>
        \<not> success r \<and> error r = Some TIMEOUT_REASON) \<and>
     (\<forall>e. session_post (post_request_of cfg t) = Aborted (OtherFault e) \<longrightarrow>
        \<not> success r \<and> error r = Some e) \<and>
     (\<forall>status body parsed.
        session_post (post_request_of cfg t) = Response status body parsed \<and> status \<noteq> 200 \<longrightarrow>
        \<not> success r \<and>
        error r = Some (STATUS_REASON_PREFIX @ str_int status @ ascii '': '' @ body)) \<and>
     (\<forall>body e. session_post (post_request_of cfg t) = Response 200 body (Inl (OtherFault e)) \<longrightarrow>
        \<not> success r \<and> error r = Some e)"
  by (auto simp: classify_message_def classify_try_def APIResponse_init_def
           split: http_outcome.splits http_fault.splits sum.splits)

text \<open>The three stub sessions: a status 500 with body \<open>busy\<close>, a timeout, a reset.\<close>

theorem classify_message_failure_results_witness:
  "session_status_500 (post_request_of default_config (ascii ''hi'')) =
     Response 500 (ascii ''busy'') (Inl (OtherFault (ascii ''not json''))) \<and>
   classify_message default_config session_status_500 (ascii ''hi'') =
     Inr \<lparr>success = False, data = JDict [],
          error = Some (STATUS_REASON_PREFIX @ ascii ''500: busy'')\<rparr> \<and>
   session_timeout (post_request_of default_config (ascii ''hi'')) = Aborted TimeoutFault \<and>
   classify_message default_config session_timeout (ascii ''hi'') =
     Inr \<lparr>success = False, data = JDict [], error = Some TIMEOUT_REASON\<rparr> \<and>
   session_reset (post_request_of default_config (ascii ''hi'')) =
     Aborted (OtherFault (ascii ''connection reset'')) \<and>
   classify_message default_config session_reset (ascii ''hi'') =
     Inr \<lparr>success = False, data = JDict [], error = Some (ascii ''connection reset'')\<rparr>"
  using classify_message_failure_results [of default_config session_status_500 "ascii ''hi''"]
    classify_message_failure_results [of default_config session_timeout "ascii ''hi''"]
    classify_message_failure_results [of default_config session_reset "ascii ''hi''"]
  by (simp add: classify_message_def classify_try_def APIResponse_init_def session_status_500_def
        session_timeout_def session_reset_def str_int_def digits.simps ascii_def)

text \<open>
  Claim C7, as stated, fails when \<^verbatim>\<open>MAX_TEXT_LENGTH\<close> is negative, which
  \<^verbatim>\<open>int(os.getenv('MAX_TEXT_LENGTH', '4096'))\<close> allows: every text is then longer than
  the limit, and the slice \<^verbatim>\<open>text[:MAX_TEXT_LENGTH]\<close> drops characters from the end. With
  the limit \<open>-2\<close> the text \<open>hello\<close> is sent as \<open>hel\<close>, of length 3.
\<close>

theorem negative_limit_counterexample:
  "int (length (ascii ''hello'')) > MAX_TEXT_LENGTH (default_config\<lparr>MAX_TEXT_LENGTH := - 2\<rparr>) \<and>
   map_of (json_body (post_request_of (default_config\<lparr>MAX_TEXT_LENGTH := - 2\<rparr>) (ascii ''hello'')))
     (ascii ''text'') = Some (JStr (ascii ''hel'')) \<and>
   int (length (ascii ''hel'')) \<noteq> MAX_TEXT_LENGTH (default_config\<lparr>MAX_TEXT_LENGTH := - 2\<rparr>)"
  by (simp add: post_request_of_def request_data_def truncated_def slice_to_def default_config_def
        ascii_def)

text \<open>
  Claim C7, amended. When \<^verbatim>\<open>MAX_TEXT_LENGTH\<close> is not negative: the \<open>text\<close> field of the
  request body that \<^verbatim>\<open>classify_message\<close> posts is a string; for a text longer than
  \<^verbatim>\<open>MAX_TEXT_LENGTH\<close> it is the first \<^verbatim>\<open>MAX_TEXT_LENGTH\<close> characters of the text, of
  length exactly \<^verbatim>\<open>MAX_TEXT_LENGTH\<close>; for a text of at most that length it is the text
  unchanged; and the call returns, it raises nothing.
\<close>

theorem request_text_truncated:
  assumes "0 \<le> MAX_TEXT_LENGTH cfg"
  shows "\<exists>sent. map_of (json_body (post_request_of cfg t)) (ascii ''text'') = Some (JStr sent) \<and>
           (int (length t) > MAX_TEXT_LENGTH cfg \<longrightarrow>
              int (length sent) = MAX_TEXT_LENGTH cfg \<and> sent = take (nat (MAX_TEXT_LENGTH cfg)) t) \<and>
           (int (length t) \<le> MAX_TEXT_LENGTH cfg \<longrightarrow> sent = t) \<and>
           (\<exists>r. classify_message cfg session_post t = Inr r)"
  using assms classify_message_returns [of cfg session_post t]
  by (simp add: request_data_def truncated_def slice_to_def post_request_of_def)

theorem request_text_truncated_witness:
  "0 \<le> MAX_TEXT_LENGTH (default_config\<lparr>MAX_TEXT_LENGTH := 3\<rparr>) \<and>
   int (length (ascii ''hello'')) > MAX_TEXT_LENGTH (default_config\<lparr>MAX_TEXT_LENGTH := 3\<rparr>) \<and>
   map_of (json_body (post_request_of (default_config\<lparr>MAX_TEXT_LENGTH := 3\<rparr>) (ascii ''hello'')))
     (ascii ''text'') = Some (JStr (ascii ''hel'')) \<and>
   int (length (ascii ''hi'')) \<le> MAX_TEXT_LENGTH (default_config\<lparr>MAX_TEXT_LENGTH := 3\<rparr>) \<and>
   map_of (json_body (post_request_of (default_config\<lparr>MAX_TEXT_LENGTH := 3\<rparr>) (ascii ''hi'')))
     (ascii ''text'') = Some (JStr (ascii ''hi''))"
  using request_text_truncated [of "default_config\<lparr>MAX_TEXT_LENGTH := 3\<rparr>" "ascii ''hello''" session_timeout]
    request_text_truncated [of "default_config\<lparr>MAX_TEXT_LENGTH := 3\<rparr>" "ascii ''hi''" session_timeout]
  by (simp add: post_request_of_def request_data_def truncated_def slice_to_def default_config_def
        ascii_def)

section \<open>The retry loop\<close>

lemma upt_3: "[0..<3] = [0, Suc 0, 2]"
  by (simp add: upt_rec numeral_3_eq_3)

lemma attempt_body_reply:
  "attempt_body rs env attempt t = Inr r \<Longrightarrow>
     \<exists>response. client env attempt t = Inr response \<and>
       fst (process_api_response rs response) = Inr r"
  by (auto simp: attempt_body_def split: sum.splits option.splits)

text \<open>The sleep returns for exactly the delays below the bound.\<close>

lemma asyncio_sleep_returns: "asyncio_sleep delay = None \<longleftrightarrow> delay < 2 ^ 1024 - 2 ^ 970"
  by (simp add: asyncio_sleep_def)

lemma replies_of_failed_attempts:
  "replies_of (concat (replicate k [ClientCall t, Slept d]) @ evs) = replies_of evs"
  by (induction k) simp_all



text \<open>
  Claim C3, as stated, fails when \<^verbatim>\<open>RETRY_DELAY\<close> is an int too large for a float,
  which \<^verbatim>\<open>int(os.getenv('RETRY_DELAY', '5'))\<close> allows: the \<^verbatim>\<open>asyncio.sleep\<close> after
  the first failed attempt raises \<^verbatim>\<open>OverflowError\<close> in the \<^verbatim>\<open>except\<close> clause. With
  \<^verbatim>\<open>MAX_RETRIES = 3\<close>, \<^verbatim>\<open>RETRY_DELAY\<close> \<open>10 ^ 400\<close> and the client that always raises, the
  handler makes one client call, sends no reply, and the exception leaves it.
\<close>

theorem retry_delay_overflow_counterexample:
  "MAX_RETRIES (default_config\<lparr>RETRY_DELAY := 10 ^ 400\<rparr>) = 3 \<and>
   client stub_always_raising 0 (ascii ''hi'') = Inl (Raised (ascii ''connection reset'')) \<and>
   client stub_always_raising 1 (ascii ''hi'') = Inl (Raised (ascii ''connection reset'')) \<and>
   client stub_always_raising 2 (ascii ''hi'') = Inl (Raised (ascii ''connection reset'')) \<and>
   handle_message no_repr (default_config\<lparr>RETRY_DELAY := 10 ^ 400\<rparr>) stub_always_raising
       (ascii ''hi'') =
     ([ClientCall (ascii ''hi'')], Some (Raised (ascii ''int too large to convert to float'')))"
  by (simp add: handle_message_def default_config_def stub_always_raising_def upt_3
        attempt_body_def asyncio_sleep_def)

text \<open>
  Claim C3, amended. With \<^verbatim>\<open>MAX_RETRIES = 3\<close>, a \<^verbatim>\<open>RETRY_DELAY\<close> that
  \<^verbatim>\<open>asyncio.sleep\<close> takes (an int below \<open>2 ^ 1024 - 2 ^ 970\<close>), a client that raises on
  every attempt and a chat platform that takes the apology, the handler does exactly
  this: a client call, a sleep of \<^verbatim>\<open>RETRY_DELAY\<close>, a client call, a sleep of
  \<^verbatim>\<open>RETRY_DELAY\<close>, a third client call and then the one reply, the fixed apology. Three
  calls, a sleep between consecutive ones, one reply after the last.
\<close>

theorem retry_exhaustion:
  assumes "MAX_RETRIES cfg = 3"
    and "RETRY_DELAY cfg < 2 ^ 1024 - 2 ^ 970"
    and "\<forall>attempt < 3. \<exists>e. client env attempt t = Inl e"
    and "apology_reply_to env = None"
  shows "handle_message rs cfg env t =
           ([ClientCall t, Slept (RETRY_DELAY cfg),
             ClientCall t, Slept (RETRY_DELAY cfg),
             ClientCall t, Replied (JStr RETRY_EXHAUSTED_REPLY)], None)"
proof -
  have body: "\<exists>e. attempt_body rs env attempt t = Inl e" if "attempt < 3" for attempt
    using assms(3) that by (auto simp: attempt_body_def)
  obtain e0 e1 e2 where
    "attempt_body rs env 0 t = Inl e0" "attempt_body rs env (Suc 0) t = Inl e1"
    "attempt_body rs env 2 t = Inl e2"
    using body [of 0] body [of "Suc 0"] body [of 2] by auto
  moreover have "asyncio_sleep (RETRY_DELAY cfg) = None"
    using assms(2) by (simp only: asyncio_sleep_returns)
  ultimately show ?thesis
    using assms(1,4) by (simp add: handle_message_def upt_3)
qed

theorem retry_exhaustion_witness:
  "MAX_RETRIES default_config = 3 \<and>
   RETRY_DELAY default_config < 2 ^ 1024 - 2 ^ 970 \<and>
   client stub_always_raising 0 (ascii ''hi'') = Inl (Raised (ascii ''connection reset'')) \<and>
   client stub_always_raising 1 (ascii ''hi'') = Inl (Raised (ascii ''connection reset'')) \<and>
   client stub_always_raising 2 (ascii ''hi'') = Inl (Raised (ascii ''connection reset'')) \<and>
   apology_reply_to stub_always_raising = None \<and>
   handle_message no_repr default_config stub_always_raising (ascii ''hi'') =
     ([ClientCall (ascii ''hi''), Slept 5,
       ClientCall (ascii ''hi''), Slept 5,
       ClientCall (ascii ''hi''), Replied (JStr RETRY_EXHAUSTED_REPLY)], None)"
  using retry_exhaustion [of default_config stub_always_raising "ascii ''hi''" no_repr]
  by (simp add: default_config_def stub_always_raising_def)

text \<open>
  The loop from any attempt \<open>i\<close> on, up to the last attempt \<open>n - 1\<close> where
  \<open>n = MAX_RETRIES\<close>, when the sleep returns and the apology can be delivered. Either some
  attempt \<open>k\<close> is the first whose \<^verbatim>\<open>try\<close> block runs through: then every attempt before it
  is a client call and a sleep, and attempt \<open>k\<close> is a client call and its reply. Or every
  attempt faults: then every attempt but the last is a client call and a sleep, and the
  last is a client call and the apology. By induction on the number of attempts left.
\<close>

lemma retry_loop_trace:
  assumes "apology_reply_to env = None" and "asyncio_sleep (RETRY_DELAY cfg) = None"
    and "int n = MAX_RETRIES cfg"
  shows "i < n \<Longrightarrow>
     (\<exists>k r. i \<le> k \<and> k < n \<and>
        (\<forall>j. i \<le> j \<and> j < k \<longrightarrow> (\<exists>e. attempt_body rs env j t = Inl e)) \<and>
        attempt_body rs env k t = Inr r \<and>
        retry_loop rs cfg env t [i..<n] =
          (concat (replicate (k - i) [ClientCall t, Slept (RETRY_DELAY cfg)]) @
             [ClientCall t, Replied r], None)) \<or>
     ((\<forall>j. i \<le> j \<and> j < n \<longrightarrow> (\<exists>e. attempt_body rs env j t = Inl e)) \<and>
      retry_loop rs cfg env t [i..<n] =
        (concat (replicate (n - 1 - i) [ClientCall t, Slept (RETRY_DELAY cfg)]) @
           [ClientCall t, Replied (JStr RETRY_EXHAUSTED_REPLY)], None))"
proof (induction "n - i" arbitrary: i)
  case 0
  then show ?case by simp
next
  case (Suc m)
  let ?step = "[ClientCall t, Slept (RETRY_DELAY cfg)]"
  have unfold: "[i..<n] = i # [Suc i..<n]"
    using Suc.prems by (simp add: upt_conv_Cons)
  show ?case
  proof (cases "attempt_body rs env i t")
    case (Inr r)
    then have "retry_loop rs cfg env t [i..<n] = ([ClientCall t, Replied r], None)"
      by (simp add: unfold)
    with Inr Suc.prems have
      "i \<le> i \<and> i < n \<and>
        (\<forall>j. i \<le> j \<and> j < i \<longrightarrow> (\<exists>e. attempt_body rs env j t = Inl e)) \<and>
        attempt_body rs env i t = Inr r \<and>
        retry_loop rs cfg env t [i..<n] =
          (concat (replicate (i - i) ?step) @ [ClientCall t, Replied r], None)"
      by auto
    then show ?thesis by blast
  next
    case (Inl e)
    show ?thesis
    proof (cases "Suc i = n")
      case True
      then have last: "int i = MAX_RETRIES cfg - 1"
        using assms(3) by auto
      have "\<forall>j. i \<le> j \<and> j < n \<longrightarrow> (\<exists>e. attempt_body rs env j t = Inl e)"
        using True Inl by (auto simp: less_Suc_eq_le dest: le_antisym)
      moreover have "retry_loop rs cfg env t [i..<n] =
          (concat (replicate (n - 1 - i) ?step) @
             [ClientCall t, Replied (JStr RETRY_EXHAUSTED_REPLY)], None)"
        using Inl last True assms(1) by (auto simp: unfold)
      ultimately show ?thesis by blast
    next
      case False
      then have lt: "Suc i < n"
        using Suc.prems by simp
      have ne: "int i \<noteq> MAX_RETRIES cfg - 1"
        using assms(3) False by auto
      have loop: "retry_loop rs cfg env t [i..<n] =
          (ClientCall t # Slept (RETRY_DELAY cfg) # fst (retry_loop rs cfg env t [Suc i..<n]),
           snd (retry_loop rs cfg env t [Suc i..<n]))"
        using Inl ne assms(2) by (simp add: unfold split: prod.splits)
      have m: "m = n - Suc i"
        using Suc.hyps(2) by simp
      from Suc.hyps(1) [OF m lt] show ?thesis
      proof (elim disjE exE conjE)
        fix k r
        assume k: "Suc i \<le> k" "k < n"
          and before: "\<forall>j. Suc i \<le> j \<and> j < k \<longrightarrow> (\<exists>e. attempt_body rs env j t = Inl e)"
          and at: "attempt_body rs env k t = Inr r"
          and rest: "retry_loop rs cfg env t [Suc i..<n] =
            (concat (replicate (k - Suc i) ?step) @ [ClientCall t, Replied r], None)"
        have "\<forall>j. i \<le> j \<and> j < k \<longrightarrow> (\<exists>e. attempt_body rs env j t = Inl e)"
        proof (intro allI impI)
          fix j
          assume "i \<le> j \<and> j < k"
          then consider "j = i" | "Suc i \<le> j \<and> j < k"
            by force
          then show "\<exists>e. attempt_body rs env j t = Inl e"
            using Inl before by cases auto
        qed
        moreover have "k - i = Suc (k - Suc i)"
          using k(1) by simp
        then have "retry_loop rs cfg env t [i..<n] =
            (concat (replicate (k - i) ?step) @ [ClientCall t, Replied r], None)"
          by (simp add: loop rest)
        moreover have "i \<le> k"
          using k(1) by simp
        ultimately show ?thesis
          using k(2) at by blast
      next
        assume all: "\<forall>j. Suc i \<le> j \<and> j < n \<longrightarrow> (\<exists>e. attempt_body rs env j t = Inl e)"
          and rest: "retry_loop rs cfg env t [Suc i..<n] =
            (concat (replicate (n - 1 - Suc i) ?step) @
               [ClientCall t, Replied (JStr RETRY_EXHAUSTED_REPLY)], None)"
        have "\<forall>j. i \<le> j \<and> j < n \<longrightarrow> (\<exists>e. attempt_body rs env j t = Inl e)"
        proof (intro allI impI)
          fix j
          assume "i \<le> j \<and> j < n"
          then consider "j = i" | "Suc i \<le> j \<and> j < n"
            by force
          then show "\<exists>e. attempt_body rs env j t = Inl e"
            using Inl all by cases auto
        qed
        moreover have "n - 1 - i = Suc (n - 1 - Suc i)"
          using lt by simp
        then have "retry_loop rs cfg env t [i..<n] =
            (concat (replicate (n - 1 - i) ?step) @
               [ClientCall t, Replied (JStr RETRY_EXHAUSTED_REPLY)], None)"
          by (simp add: loop rest)
        ultimately show ?thesis by blast
      qed
    qed
  qed
qed

text \<open>
  Claim C1, as stated, fails, in three ways. With \<^verbatim>\<open>MAX_RETRIES = 0\<close>, which
  \<^verbatim>\<open>int(os.getenv('MAX_RETRIES', '3'))\<close> allows, \<^verbatim>\<open>range(MAX_RETRIES)\<close> is empty: the
  handler makes no attempt and sends no reply. When the chat platform rejects every
  reply, each attempt faults in its \<^verbatim>\<open>bot.reply_to\<close>, the apology of the last attempt is
  rejected as well, no reply is delivered and the exception leaves the handler. And with
  a \<^verbatim>\<open>RETRY_DELAY\<close> too large for a float the sleep after the first failed attempt
  raises: the stub whose third call would answer is called once, no reply is sent and
  the exception leaves the handler.
\<close>

theorem handle_message_no_reply_counterexample:
  "handle_message no_repr (default_config\<lparr>MAX_RETRIES := 0\<rparr>) stub_clean_failure (ascii ''hi'') =
     ([], None) \<and>
   handle_message no_repr default_config stub_platform_down (ascii ''hi'') =
     ([ClientCall (ascii ''hi''), Slept 5, ClientCall (ascii ''hi''), Slept 5,
       ClientCall (ascii ''hi'')],
      Some (Raised (ascii ''network down''))) \<and>
   handle_message no_repr (default_config\<lparr>RETRY_DELAY := 10 ^ 400\<rparr>) stub_third_call_succeeds
       (ascii ''hi'') =
     ([ClientCall (ascii ''hi'')], Some (Raised (ascii ''int too large to convert to float'')))"
  by (simp add: handle_message_def default_config_def stub_platform_down_def
        stub_third_call_succeeds_def upt_3 attempt_body_def asyncio_sleep_def
        process_api_response_def APIResponse_init_def dict_get_def dict_get_default_def ascii_def)

text \<open>
  Claim C1, amended. When \<^verbatim>\<open>MAX_RETRIES\<close> is at least 1, \<^verbatim>\<open>RETRY_DELAY\<close> is a delay that
  \<^verbatim>\<open>asyncio.sleep\<close> takes (an int below \<open>2 ^ 1024 - 2 ^ 970\<close>) and the chat platform takes
  the apology of the last attempt, the handler delivers exactly one reply and no
  exception leaves it, whichever attempts fault and wherever in the attempt (in the
  client call, in the processing of the response or in sending the reply). Which reply
  is fixed too:
  \<^item> if some attempt runs through, the first such attempt \<open>k\<close> ends the loop: the effects
    are a client call and a sleep for each of the \<open>k\<close> attempts before it, then the
    client call of attempt \<open>k\<close> and the reply, which is what \<^verbatim>\<open>process_api_response\<close>
    returned for the response of that call (the formatted result, or for a clean failure
    its apology);
  \<^item> only if every one of the \<^verbatim>\<open>MAX_RETRIES\<close> attempts faults, the reply is the fixed
    apology, after \<^verbatim>\<open>MAX_RETRIES\<close> client calls with a sleep between consecutive ones.
\<close>

theorem handle_message_exactly_one_reply:
  assumes "1 \<le> MAX_RETRIES cfg"
    and "RETRY_DELAY cfg < 2 ^ 1024 - 2 ^ 970"
    and "apology_reply_to env = None"
  shows "\<exists>r. replies_of (fst (handle_message rs cfg env t)) = [r] \<and>
           snd (handle_message rs cfg env t) = None \<and>
           ((\<exists>k < nat (MAX_RETRIES cfg).
               (\<forall>j < k. \<exists>e. attempt_body rs env j t = Inl e) \<and>
               (\<exists>response. client env k t = Inr response \<and>
                  fst (process_api_response rs response) = Inr r \<and>
                  reply_to env k r = None) \<and>
               fst (handle_message rs cfg env t) =
                 concat (replicate k [ClientCall t, Slept (RETRY_DELAY cfg)]) @
                   [ClientCall t, Replied r]) \<or>
            ((\<forall>j < nat (MAX_RETRIES cfg). \<exists>e. attempt_body rs env j t = Inl e) \<and>
             r = JStr RETRY_EXHAUSTED_REPLY \<and>
             fst (handle_message rs cfg env t) =
               concat (replicate (nat (MAX_RETRIES cfg) - 1)
                         [ClientCall t, Slept (RETRY_DELAY cfg)]) @
                 [ClientCall t, Replied (JStr RETRY_EXHAUSTED_REPLY)]))"
proof -
  let ?n = "nat (MAX_RETRIES cfg)"
  have sleep: "asyncio_sleep (RETRY_DELAY cfg) = None"
    using assms(2) by (simp only: asyncio_sleep_returns)
  have n: "int ?n = MAX_RETRIES cfg" "0 < ?n"
    using assms(1) by simp_all
  from retry_loop_trace [OF assms(3) sleep n(1) n(2), of rs t] show ?thesis
  proof (elim disjE exE conjE)
    fix k r
    assume k: "k < ?n"
      and before: "\<forall>j. 0 \<le> j \<and> j < k \<longrightarrow> (\<exists>e. attempt_body rs env j t = Inl e)"
      and at: "attempt_body rs env k t = Inr r"
      and loop: "retry_loop rs cfg env t [0..<?n] =
        (concat (replicate (k - 0) [ClientCall t, Slept (RETRY_DELAY cfg)]) @
           [ClientCall t, Replied r], None)"
    have sent: "\<exists>response. client env k t = Inr response \<and>
        fst (process_api_response rs response) = Inr r \<and> reply_to env k r = None"
      using at by (auto simp: attempt_body_def split: sum.splits option.splits)
    have "replies_of (fst (handle_message rs cfg env t)) = [r]"
      by (simp add: handle_message_def loop replies_of_failed_attempts)
    moreover have "snd (handle_message rs cfg env t) = None"
      by (simp add: handle_message_def loop)
    moreover have "fst (handle_message rs cfg env t) =
        concat (replicate k [ClientCall t, Slept (RETRY_DELAY cfg)]) @ [ClientCall t, Replied r]"
      by (simp add: handle_message_def loop)
    ultimately show ?thesis
      using k before sent by auto
  next
    assume all: "\<forall>j. 0 \<le> j \<and> j < ?n \<longrightarrow> (\<exists>e. attempt_body rs env j t = Inl e)"
      and loop: "retry_loop rs cfg env t [0..<?n] =
        (concat (replicate (?n - 1 - 0) [ClientCall t, Slept (RETRY_DELAY cfg)]) @
           [ClientCall t, Replied (JStr RETRY_EXHAUSTED_REPLY)], None)"
    have "replies_of (fst (handle_message rs cfg env t)) = [JStr RETRY_EXHAUSTED_REPLY]"
      by (simp add: handle_message_def loop replies_of_failed_attempts)
    moreover have "snd (handle_message rs cfg env t) = None"
      by (simp add: handle_message_def loop)
    moreover have "fst (handle_message rs cfg env t) =
        concat (replicate (?n - 1) [ClientCall t, Slept (RETRY_DELAY cfg)]) @
          [ClientCall t, Replied (JStr RETRY_EXHAUSTED_REPLY)]"
      by (simp add: handle_message_def loop)
    ultimately show ?thesis
      using all by auto
  qed
qed

text \<open>The stub that raises twice and then answers: two sleeps, three calls, one reply.\<close>

theorem handle_message_exactly_one_reply_witness:
  "1 \<le> MAX_RETRIES default_config \<and>
   RETRY_DELAY default_config < 2 ^ 1024 - 2 ^ 970 \<and>
   apology_reply_to stub_third_call_succeeds = None \<and>
   handle_message no_repr default_config stub_third_call_succeeds (ascii ''hi'') =
     ([ClientCall (ascii ''hi''), Slept 5, ClientCall (ascii ''hi''), Slept 5,
       ClientCall (ascii ''hi''), Replied (JStr (ascii ''ok''))], None) \<and>
   replies_of (fst (handle_message no_repr default_config stub_third_call_succeeds (ascii ''hi''))) =
     [JStr (ascii ''ok'')]"
  using handle_message_exactly_one_reply
    [of default_config stub_third_call_succeeds no_repr "ascii ''hi''"]
  by (simp add: default_config_def stub_third_call_succeeds_def handle_message_def upt_3
        attempt_body_def asyncio_sleep_def process_api_response_def APIResponse_init_def
        dict_get_def dict_get_default_def ascii_def)

section \<open>Absent keys are defaulted\<close>

lemma map_of_setdefault:
  "map_of (setdefault k v d) k' = (if k' = k \<and> map_of d k = None then Some v else map_of d k')"
  by (auto simp: setdefault_def map_add_def split: option.splits)

lemma map_of_with_defaults:
  "map_of (with_defaults d) k =
     (case map_of d k of
        Some v \<Rightarrow> Some v
      | None \<Rightarrow>
          if k = ascii ''valid'' then Some (JBool False)
          else if k = ascii ''attributes'' \<or> k = ascii ''missingAttributes'' \<or> k = ascii ''keywords''
          then Some (JList []) else None)"
  using key_distinct
  by (auto simp: with_defaults_def map_of_setdefault split: option.splits)

lemma format_reply_with_defaults:
  "format_reply rs (normalize_attributes (with_defaults d)) =
   format_reply rs (normalize_attributes d)"
  using key_distinct
  by (auto simp: format_reply_def dict_get_def dict_get_default_def map_of_normalize_other
        map_of_normalize_attributes map_of_with_defaults split: option.splits json.splits)

lemma process_with_defaults:
  "fst (process_api_response rs \<lparr>success = True, data = JDict (with_defaults d), error = e\<rparr>) =
   fst (process_api_response rs \<lparr>success = True, data = JDict d, error = e\<rparr>)"
  using key_distinct
  by (auto simp: process_api_response_def format_reply_with_defaults dict_get_def
        dict_get_default_def map_of_with_defaults split: option.splits)

text \<open>The formatters iterate without error on lists of the documented shape.\<close>

lemma attr_lines_ok:
  "list_all is_attribute attrs \<Longrightarrow> \<exists>s. attr_lines rs table bullet attrs reply = Inr s"
proof (induction attrs arbitrary: reply)
  case Nil
  then show ?case by simp
next
  case (Cons a attrs)
  then obtain kvs n v where a: "a = JDict kvs" "map_of kvs (ascii ''name'') = Some (JStr n)"
      "map_of kvs (ascii ''value'') = Some v"
    by (cases a) (auto split: option.splits json.splits)
  obtain name where "names_get table (JStr n) = Inr name"
    by (cases "map_of table n") auto
  with a Cons show ?case by simp
qed

lemma missing_lines_ok:
  "list_all is_str xs \<Longrightarrow> \<exists>s. missing_lines rs xs reply = Inr s"
proof (induction xs arbitrary: reply)
  case Nil
  then show ?case by simp
next
  case (Cons x xs)
  then obtain n where x: "x = JStr n"
    by (cases x) auto
  obtain name where "names_get attr_names_missing (JStr n) = Inr name"
    by (cases "map_of attr_names_missing n") auto
  with x Cons show ?case by simp
qed

lemma strs_of_ok: "list_all is_str xs \<Longrightarrow> \<exists>ss. strs_of xs = Inr ss"
proof (induction xs)
  case Nil
  then show ?case by simp
next
  case (Cons x xs)
  then obtain n where x: "x = JStr n"
    by (cases x) auto
  with Cons show ?case by auto
qed

lemma is_attribute_record: "is_attribute (attribute_record kv)"
  by (simp add: attribute_record_def ascii_def)

lemma format_successful_ok:
  assumes "list_all is_attribute attrs" and "is_str_list kws"
  shows "\<exists>s. format_successful_classification rs (JList attrs) kws = Inr s"
proof -
  obtain ks where ks: "kws = JList ks" "list_all is_str ks"
    using assms(2) by (cases kws) auto
  obtain reply where
    "attr_lines rs attr_names_classified CLASSIFIED_BULLET attrs CLASSIFIED_HEADER = Inr reply"
    using attr_lines_ok [OF assms(1)] by blast
  moreover obtain ss where "strs_of ks = Inr ss"
    using strs_of_ok [OF ks(2)] by blast
  ultimately show ?thesis
    by (simp add: format_successful_classification_def py_join_def ks)
qed

lemma format_missing_ok:
  assumes "list_all is_attribute attrs" and "is_str_list missing"
  shows "\<exists>s. format_missing_info rs missing (JList attrs) = Inr s"
proof -
  obtain ms where ms: "missing = JList ms" "list_all is_str ms"
    using assms(2) by (cases missing) auto
  have "\<exists>reply. recognized_block rs (JList attrs) MISSING_HEADER = Inr reply"
  proof (cases "attrs = []")
    case True
    then show ?thesis by (simp add: recognized_block_def)
  next
    case False
    obtain s where "attr_lines rs attr_names_missing (ascii ''- '') attrs
        (MISSING_HEADER @ RECOGNIZED_HEADER) = Inr s"
      using attr_lines_ok [OF assms(1)] by blast
    with False show ?thesis by (simp add: recognized_block_def)
  qed
  then obtain reply where reply: "recognized_block rs (JList attrs) MISSING_HEADER = Inr reply"
    by blast
  show ?thesis
    using missing_lines_ok [OF ms(2), of rs "reply @ CLARIFY_HEADER"]
    by (simp add: format_missing_info_def reply ms)
qed

lemma format_reply_ok:
  assumes "payload_shape d"
  shows "\<exists>s. format_reply rs (normalize_attributes d) = Inr (JStr s)"
proof -
  let ?n = "normalize_attributes d"
  have "\<exists>attrs. dict_get_default ?n (ascii ''attributes'') (JList []) = JList attrs \<and>
          list_all is_attribute attrs"
  proof (cases "map_of d (ascii ''attributes'')")
    case None
    then show ?thesis
      by (simp add: dict_get_default_def map_of_normalize_attributes)
  next
    case (Some v)
    then have "is_attributes v"
      using assms by (simp add: payload_shape_def field_ok_def)
    then show ?thesis
      using Some
      by (cases v)
         (simp_all add: dict_get_default_def map_of_normalize_attributes list_all_iff
            is_attribute_record)
  qed
  then obtain attrs where attrs:
    "dict_get_default ?n (ascii ''attributes'') (JList []) = JList attrs"
    "list_all is_attribute attrs"
    by blast
  have kw: "is_str_list (dict_get_default ?n (ascii ''keywords'') (JList []))"
    and ms: "is_str_list (dict_get_default ?n (ascii ''missingAttributes'') (JList []))"
    using assms key_distinct
    by (auto simp: payload_shape_def field_ok_def dict_get_default_def map_of_normalize_other
          split: option.splits)
  show ?thesis
    using format_successful_ok [OF attrs(2) kw, of rs] format_missing_ok [OF attrs(2) ms, of rs]
    by (auto simp: format_reply_def attrs(1))
qed

text \<open>
  Claim C8. For every success payload of the documented shape, whichever of the keys
  \<open>answer\<close>, \<open>valid\<close>, \<open>attributes\<close>, \<open>missingAttributes\<close> and \<open>keywords\<close> are absent,
  \<^verbatim>\<open>process_api_response\<close> does not fail: it returns a reply string, and that reply is the
  one it returns for the same payload with the defaults written in for the absent keys
  (\<open>valid\<close> false, \<open>attributes\<close>, \<open>missingAttributes\<close> and \<open>keywords\<close> the empty list).
\<close>

theorem missing_keys_defaulted:
  assumes "payload_shape d"
  shows "\<exists>s. fst (process_api_response rs \<lparr>success = True, data = JDict d, error = e\<rparr>) =
               Inr (JStr s) \<and>
             fst (process_api_response rs
                    \<lparr>success = True, data = JDict (with_defaults d), error = e\<rparr>) =
               Inr (JStr s)"
proof -
  have "\<exists>s. fst (process_api_response rs \<lparr>success = True, data = JDict d, error = e\<rparr>) =
          Inr (JStr s)"
  proof (cases "truthy (dict_get d (ascii ''answer''))")
    case True
    then obtain a where "dict_get d (ascii ''answer'') = JStr a"
      using assms
      by (auto simp: payload_shape_def field_ok_def dict_get_def dict_get_default_def
            split: option.splits json.splits elim: is_str.elims)
    with True show ?thesis
      by (simp add: process_api_response_def)
  next
    case False
    with format_reply_ok [OF assms, of rs] show ?thesis
      by (simp add: process_api_response_def)
  qed
  then show ?thesis
    by (simp add: process_with_defaults)
qed

text \<open>
  Two instances: the empty payload, where all five keys are absent, and a payload that
  has \<open>missingAttributes\<close> only.
\<close>

theorem missing_keys_defaulted_witness:
  "payload_shape [] \<and>
   fst (process_api_response no_repr \<lparr>success = True, data = JDict [], error = None\<rparr>) =
     Inr (JStr (MISSING_HEADER @ CLARIFY_HEADER)) \<and>
   payload_shape [(ascii ''missingAttributes'', JList [JStr (ascii ''serial_number'')])] \<and>
   fst (process_api_response no_repr
     \<lparr>success = True,
      data = JDict [(ascii ''missingAttributes'', JList [JStr (ascii ''serial_number'')])],
      error = None\<rparr>) =
     Inr (JStr (MISSING_HEADER @ CLARIFY_HEADER @ ascii ''- '' @ label_serial_number @ [10])) \<and>
   fst (process_api_response no_repr
     \<lparr>success = True,
      data = JDict (with_defaults
               [(ascii ''missingAttributes'', JList [JStr (ascii ''serial_number'')])]),
      error = None\<rparr>) =
     Inr (JStr (MISSING_HEADER @ CLARIFY_HEADER @ ascii ''- '' @ label_serial_number @ [10]))"
  using missing_keys_defaulted [of "[]" no_repr None]
    missing_keys_defaulted
      [of "[(ascii ''missingAttributes'', JList [JStr (ascii ''serial_number'')])]" no_repr None]
  by (simp add: payload_shape_def field_ok_def process_api_response_def normalize_attributes_def
        format_reply_def format_missing_info_def recognized_block_def dict_get_def
        dict_get_default_def attr_names_missing_def with_defaults_def setdefault_def ascii_def)

end
